theory Spec2Isabelle
  imports Main
begin

section \<open>The KFD session of openclose.c\<close>

text \<open>
  The file \<^verbatim>\<open>src/openclose.c\<close> keeps one process-wide session with the kernel driver:
  a descriptor \<^verbatim>\<open>kfd_fd\<close>, a reference count \<^verbatim>\<open>kfd_open_count\<close>, the fork tracker
  (\<^verbatim>\<open>parent_pid\<close>, \<^verbatim>\<open>hsakmt_forked\<close>) and the settings read from the environment.
  The globals become one record that every function takes and returns. Everything the
  file calls in other modules or in the C library is a collaborator: what it answers is
  an input of the model (the record \<open>sys\<close>), and every call that acts on the outside is
  appended to the log \<open>calls\<close> of the state, so that the order and the number of the
  calls can be read off.

  \<^verbatim>\<open>hsaKmtOpenKFD\<close> and \<^verbatim>\<open>hsaKmtCloseKFD\<close> hold \<^verbatim>\<open>hsakmt_mutex\<close> from their first to
  their last statement; the model is the sequential behaviour of one such critical
  section and does not mention the lock. \<^verbatim>\<open>pr_err\<close> and \<^verbatim>\<open>pr_warn\<close> only print.
\<close>

subsection \<open>Status codes, collaborator calls, state\<close>

text \<open>
  The enumeration \<^verbatim>\<open>HSAKMT_STATUS\<close> is declared outside the file. The model has the
  four codes that the file names, and one constructor for every other code that a
  collaborator may return.
\<close>

datatype HSAKMT_STATUS =
    HSAKMT_STATUS_SUCCESS
  | HSAKMT_STATUS_ERROR
  | HSAKMT_STATUS_KERNEL_IO_CHANNEL_NOT_OPENED
  | HSAKMT_STATUS_KERNEL_ALREADY_OPENED
  | HSAKMT_STATUS_OTHER nat

text \<open>The calls that act on the outside; the node count is the argument of the inits.\<close>

datatype call =
    Call_open int
    \<comment> \<open>\<^verbatim>\<open>open("/dev/kfd", O_RDWR | O_CLOEXEC)\<close>, with the value it returned\<close>
  | Call_close int
  | Call_topology_sysfs_get_system_props
  | Call_fmm_init_process_apertures nat
  | Call_init_process_doorbells nat
  | Call_init_device_debugging_memory nat
  | Call_init_counter_props nat
  | Call_pthread_atfork
  | Call_destroy_counter_props
  | Call_destroy_device_debugging_memory
  | Call_destroy_process_doorbells
  | Call_fmm_destroy_process_apertures
  | Call_clear_process_doorbells
  | Call_clear_events_page
  | Call_fmm_clear_all_mem

text \<open>
  The fields of \<^verbatim>\<open>force_asic_entry\<close> that \<^verbatim>\<open>init_vars_from_env\<close> assigns. The values
  stored are checked against their bounds first, so no narrowing can occur.
\<close>

record hsa_gfxip_table =
  major :: nat
  minor :: nat
  stepping :: nat
  is_dgpu :: nat
  asic_family :: nat

text \<open>
  Modelled from the spec: the declarations of \<^verbatim>\<open>kfd_fd\<close>, \<^verbatim>\<open>kfd_open_count\<close>,
  \<^verbatim>\<open>PAGE_SIZE\<close>, \<^verbatim>\<open>PAGE_SHIFT\<close>, \<^verbatim>\<open>force_asic\<close>, \<^verbatim>\<open>force_asic_name\<close> and
  \<^verbatim>\<open>force_asic_entry\<close> are in a header that is missing. The spec gives the open count as
  a non-negative integer; the file compares it with zero, increments and decrements it,
  and it is a natural number here. The descriptor and the process ids are integers.
  \<^verbatim>\<open>parent_pid\<close>, \<^verbatim>\<open>hsakmt_forked\<close>, \<^verbatim>\<open>hsakmt_debug_level\<close> and \<^verbatim>\<open>zfb_support\<close> are
  defined in the file, \<^verbatim>\<open>atfork_installed\<close> is the static local of \<^verbatim>\<open>hsaKmtOpenKFD\<close>,
  and \<open>calls\<close> is the log of collaborator calls.
\<close>

record kfd_state =
  kfd_fd :: int
  kfd_open_count :: nat
  parent_pid :: int
  hsakmt_forked :: bool
  atfork_installed :: bool
  hsakmt_debug_level :: int
  zfb_support :: int
  force_asic_name :: string
  force_asic_entry :: hsa_gfxip_table
  force_asic :: int
  PAGE_SIZE :: int
  PAGE_SHIFT :: int
  calls :: "call list"

text \<open>
  What the outside answers during one call of \<^verbatim>\<open>hsaKmtOpenKFD\<close>: the process id, the
  environment, the descriptor (or \<open>-1\<close>) from \<^verbatim>\<open>open\<close>, the page size, and the result
  of the topology query and of each init function.
\<close>

record sys =
  getpid :: int
  getenv :: "string \<Rightarrow> string option"
  open_kfd :: int
  sysconf_PAGESIZE :: int
  topology_sysfs_get_system_props :: "HSAKMT_STATUS \<times> nat"
  fmm_init_process_apertures :: HSAKMT_STATUS
  init_process_doorbells :: HSAKMT_STATUS
  init_device_debugging_memory :: HSAKMT_STATUS
  init_counter_props :: HSAKMT_STATUS

text \<open>
  The constants that the file takes from the missing header are parameters of the
  model.
\<close>

record header =
  CHIP_LAST :: nat
  HSAKMT_DEBUG_LEVEL_DEFAULT :: int
  HSAKMT_DEBUG_LEVEL_ERR :: int
  HSAKMT_DEBUG_LEVEL_DEBUG :: int

definition log_call :: "call \<Rightarrow> kfd_state \<Rightarrow> kfd_state" where
  "log_call c s = s\<lparr>calls := calls s @ [c]\<rparr>"

text \<open>
  The state of a process that has not called the library. \<^verbatim>\<open>parent_pid\<close> starts at
  \<open>-1\<close>; the other globals start at zero, which for \<^verbatim>\<open>kfd_fd\<close> is the value that the
  file takes to mean that no descriptor is held (\<^verbatim>\<open>if (kfd_fd)\<close> guards every close,
  and 0 is stored after it).
\<close>

definition initial_state :: kfd_state where
  "initial_state =
     \<lparr>kfd_fd = 0, kfd_open_count = 0, parent_pid = -1, hsakmt_forked = False,
      atfork_installed = False, hsakmt_debug_level = 0, zfb_support = 0,
      force_asic_name = [],
      force_asic_entry = \<lparr>major = 0, minor = 0, stepping = 0, is_dgpu = 0, asic_family = 0\<rparr>,
      force_asic = 0, PAGE_SIZE = 0, PAGE_SHIFT = 0, calls = []\<rparr>"

subsection \<open>The fork tracker\<close>

definition is_forked_child :: "int \<Rightarrow> kfd_state \<Rightarrow> bool \<times> kfd_state" where
  "is_forked_child cur_pid s =
     (if hsakmt_forked s then (True, s)
      else if parent_pid s = -1 then (False, s\<lparr>parent_pid := cur_pid\<rparr>)
      else if parent_pid s \<noteq> cur_pid then (True, s\<lparr>hsakmt_forked := True\<rparr>)
      else (False, s))"

definition child_fork_handler :: "kfd_state \<Rightarrow> kfd_state" where
  "child_fork_handler s = s\<lparr>hsakmt_forked := True\<rparr>"

definition close_if_marked :: "kfd_state \<Rightarrow> kfd_state" where
  \<comment> \<open>\<^verbatim>\<open>if (kfd_fd) { close(kfd_fd); kfd_fd = 0; }\<close>\<close>
  "close_if_marked s =
     (if kfd_fd s \<noteq> 0 then (log_call (Call_close (kfd_fd s)) s)\<lparr>kfd_fd := 0\<rparr> else s)"

definition clear_after_fork :: "kfd_state \<Rightarrow> kfd_state" where
  "clear_after_fork s =
     (let s1 = log_call Call_clear_process_doorbells s;
          s2 = log_call Call_clear_events_page s1;
          s3 = log_call Call_fmm_clear_all_mem s2;
          s4 = log_call Call_destroy_device_debugging_memory s3;
          s5 = close_if_marked s4
      in s5\<lparr>kfd_open_count := 0, parent_pid := -1, hsakmt_forked := False\<rparr>)"

subsection \<open>The C library functions that read the environment strings\<close>

text \<open>
  \<^verbatim>\<open>atoi\<close>, \<^verbatim>\<open>sscanf\<close> and \<^verbatim>\<open>ffs\<close> belong to the C library. They are written out for
  the inputs the file gives them, after ISO C and, where ISO C leaves the result open
  (a number that does not fit), after glibc: \<^verbatim>\<open>strtol\<close> and \<^verbatim>\<open>strtoul\<close> saturate at
  the limits of \<^verbatim>\<open>long\<close> and the result is then cut to 32 bits.
\<close>

definition isspace :: "char \<Rightarrow> bool" where
  "isspace c = (c = CHR '' '' \<or> (9 \<le> (of_char c :: nat) \<and> (of_char c :: nat) \<le> 13))"

definition isdigit :: "char \<Rightarrow> bool" where
  "isdigit c = (48 \<le> (of_char c :: nat) \<and> (of_char c :: nat) \<le> 57)"

definition skip_space :: "string \<Rightarrow> string" where
  "skip_space = dropWhile isspace"

definition digits_value :: "string \<Rightarrow> nat" where
  "digits_value ds = foldl (\<lambda>acc c. 10 * acc + (of_char c - 48)) 0 ds"

definition take_sign :: "string \<Rightarrow> bool \<times> string" where
  "take_sign r =
     (case r of
        [] \<Rightarrow> (False, r)
      | c # cs \<Rightarrow> if c = CHR ''-'' then (True, cs)
                  else if c = CHR ''+'' then (False, cs) else (False, r))"

definition atoi :: "string \<Rightarrow> int" where
  "atoi str =
     (case take_sign (skip_space str) of (neg, r) \<Rightarrow>
        let m = int (digits_value (takeWhile isdigit r));
            l = (if neg then max (- (2 ^ 63)) (- m) else min (2 ^ 63 - 1) m)
        in (l + 2 ^ 31) mod 2 ^ 32 - 2 ^ 31)"

datatype scan_fail = Input_failure | Matching_failure

datatype directive = Conv_u | Conv_s nat | Lit char | Space

datatype scan_val = Val_u nat | Val_s string

definition scan_u :: "string \<Rightarrow> scan_fail + nat \<times> string" where
  \<comment> \<open>\<^verbatim>\<open>%u\<close> storing into a \<^verbatim>\<open>uint32_t\<close>\<close>
  "scan_u inp =
     (let r = skip_space inp in
      if r = [] then Inl Input_failure
      else case take_sign r of (neg, r1) \<Rightarrow>
        let ds = takeWhile isdigit r1 in
        if ds = [] then Inl Matching_failure
        else let m = digits_value ds;
                 ul = (if m > 2 ^ 64 - 1 then 2 ^ 64 - 1
                       else if neg then (2 ^ 64 - m) mod 2 ^ 64 else m)
             in Inr (ul mod 2 ^ 32, dropWhile isdigit r1))"

definition scan_s :: "nat \<Rightarrow> string \<Rightarrow> scan_fail + string \<times> string" where
  \<comment> \<open>\<^verbatim>\<open>%ns\<close>: at most \<open>n\<close> characters that are not white space\<close>
  "scan_s n inp =
     (let r = skip_space inp in
      if r = [] then Inl Input_failure
      else let tok = take n (takeWhile (\<lambda>c. \<not> isspace c) r)
           in Inr (tok, drop (length tok) r))"

definition scan_lit :: "char \<Rightarrow> string \<Rightarrow> scan_fail + string" where
  "scan_lit c inp =
     (case inp of
        [] \<Rightarrow> Inl Input_failure
      | d # rest \<Rightarrow> if d = c then Inr rest else Inl Matching_failure)"

fun run_directives :: "directive list \<Rightarrow> string \<Rightarrow> scan_val list \<Rightarrow> scan_fail option \<times> scan_val list" where
  "run_directives [] inp vs = (None, vs)"
| "run_directives (Conv_u # ds) inp vs =
     (case scan_u inp of
        Inl f \<Rightarrow> (Some f, vs)
      | Inr (v, rest) \<Rightarrow> run_directives ds rest (vs @ [Val_u v]))"
| "run_directives (Conv_s n # ds) inp vs =
     (case scan_s n inp of
        Inl f \<Rightarrow> (Some f, vs)
      | Inr (v, rest) \<Rightarrow> run_directives ds rest (vs @ [Val_s v]))"
| "run_directives (Lit c # ds) inp vs =
     (case scan_lit c inp of
        Inl f \<Rightarrow> (Some f, vs)
      | Inr rest \<Rightarrow> run_directives ds rest vs)"
| "run_directives (Space # ds) inp vs = run_directives ds (skip_space inp) vs"

text \<open>
  \<^verbatim>\<open>sscanf\<close> returns the number of values it stored, or \<^verbatim>\<open>EOF\<close> (\<open>-1\<close>) when the input
  ends before the first conversion; the values stored so far stay stored.
\<close>

definition sscanf :: "string \<Rightarrow> directive list \<Rightarrow> int \<times> scan_val list" where
  "sscanf inp fmt =
     (case run_directives fmt inp [] of (fl, vs) \<Rightarrow>
        (if fl = Some Input_failure \<and> vs = [] then - 1 else int (length vs), vs))"

fun ffs_from :: "nat \<Rightarrow> nat \<Rightarrow> nat \<Rightarrow> nat" where
  "ffs_from 0 k n = 0"
| "ffs_from (Suc fuel) k n = (if odd n then k else ffs_from fuel (Suc k) (n div 2))"

definition ffs :: "int \<Rightarrow> int" where
  \<comment> \<open>position of the lowest set bit of a 32-bit \<^verbatim>\<open>int\<close>, counted from 1; 0 for 0\<close>
  "ffs i = int (ffs_from 32 1 (nat (i mod 2 ^ 32)))"

subsection \<open>Settings from the environment\<close>

definition init_page_size :: "sys \<Rightarrow> kfd_state \<Rightarrow> kfd_state" where
  "init_page_size w s =
     (let s1 = s\<lparr>PAGE_SIZE := sysconf_PAGESIZE w\<rparr>
      in s1\<lparr>PAGE_SHIFT := ffs (PAGE_SIZE s1) - 1\<rparr>)"

definition force_asic_format :: "directive list" where
  \<comment> \<open>\<^verbatim>\<open>"%u.%u.%u %u %63s %u"\<close>\<close>
  "force_asic_format =
     [Conv_u, Lit CHR ''.'', Conv_u, Lit CHR ''.'', Conv_u, Space, Conv_u, Space,
      Conv_s 63, Space, Conv_u]"

definition store_scanned_name :: "scan_val list \<Rightarrow> kfd_state \<Rightarrow> kfd_state" where
  \<comment> \<open>the fifth argument of the \<^verbatim>\<open>sscanf\<close> call is the global \<^verbatim>\<open>force_asic_name\<close> itself\<close>
  "store_scanned_name vs s =
     (if 5 \<le> length vs
      then (case vs ! 4 of Val_s nm \<Rightarrow> s\<lparr>force_asic_name := nm\<rparr> | Val_u _ \<Rightarrow> s)
      else s)"

fun six_fields :: "scan_val list \<Rightarrow> (nat \<times> nat \<times> nat \<times> nat \<times> string \<times> nat) option" where
  \<comment> \<open>the six variables that the \<^verbatim>\<open>sscanf\<close> call fills, once it has filled them all\<close>
  "six_fields [Val_u major', Val_u minor', Val_u step, Val_u dgpu, Val_s nm, Val_u asic_family'] =
     Some (major', minor', step, dgpu, nm, asic_family')"
| "six_fields _ = None"

definition init_vars_from_env :: "header \<Rightarrow> sys \<Rightarrow> kfd_state \<Rightarrow> HSAKMT_STATUS \<times> kfd_state" where
  "init_vars_from_env K w s =
     (let s1 = s\<lparr>hsakmt_debug_level := HSAKMT_DEBUG_LEVEL_DEFAULT K\<rparr>;
          s2 = (case getenv w ''HSAKMT_DEBUG_LEVEL'' of
                  None \<Rightarrow> s1
                | Some envvar \<Rightarrow>
                    let debug_level = atoi envvar in
                    if debug_level \<ge> HSAKMT_DEBUG_LEVEL_ERR K \<and>
                       debug_level \<le> HSAKMT_DEBUG_LEVEL_DEBUG K
                    then s1\<lparr>hsakmt_debug_level := debug_level\<rparr> else s1);
          s3 = (case getenv w ''HSA_ZFB'' of
                  None \<Rightarrow> s2
                | Some envvar \<Rightarrow> s2\<lparr>zfb_support := atoi envvar\<rparr>)
      in case getenv w ''HSA_FORCE_ASIC_TYPE'' of
           None \<Rightarrow> (HSAKMT_STATUS_SUCCESS, s3)
         | Some envvar \<Rightarrow>
             (case sscanf envvar force_asic_format of (n, vs) \<Rightarrow>
                let s4 = store_scanned_name vs s3 in
                if n \<noteq> 6 then (HSAKMT_STATUS_ERROR, s4)
                else
                  (case six_fields vs of
                     None \<Rightarrow> (HSAKMT_STATUS_ERROR, s4)
                   | Some (major', minor', step, dgpu, nm, asic_family') \<Rightarrow>
                       if (major' > 63 \<or> minor' > 255 \<or> step > 255)
                          \<or> dgpu > 1 \<or> asic_family' \<ge> CHIP_LAST K
                       then (HSAKMT_STATUS_ERROR, s4)
                       else (HSAKMT_STATUS_SUCCESS,
                             s4\<lparr>force_asic_entry :=
                                   (force_asic_entry s4)\<lparr>major := major', minor := minor',
                                      stepping := step, is_dgpu := dgpu,
                                      asic_family := asic_family'\<rparr>,
                                 force_asic := 1\<rparr>))))"

subsection \<open>Open and close\<close>

definition first_open :: "header \<Rightarrow> sys \<Rightarrow> kfd_state \<Rightarrow> HSAKMT_STATUS \<times> kfd_state" where
  \<comment> \<open>the branch \<^verbatim>\<open>kfd_open_count == 0\<close> of \<^verbatim>\<open>hsaKmtOpenKFD\<close>, with its \<^verbatim>\<open>goto\<close> exits\<close>
  "first_open K w s =
     (case init_vars_from_env K w s of (result, s1) \<Rightarrow>
      if result \<noteq> HSAKMT_STATUS_SUCCESS then (result, s1)
      else
        let fd = open_kfd w;
            s2 = log_call (Call_open fd) s1
        in if fd = - 1 then (HSAKMT_STATUS_KERNEL_IO_CHANNEL_NOT_OPENED, s2)
        else
          let s3 = init_page_size w (s2\<lparr>kfd_fd := fd, kfd_open_count := 1\<rparr>);
              s4 = log_call Call_topology_sysfs_get_system_props s3
          in case topology_sysfs_get_system_props w of (result, NumNodes) \<Rightarrow>
          if result \<noteq> HSAKMT_STATUS_SUCCESS
          then (result, log_call (Call_close fd) s4)
          else
            let s5 = log_call (Call_fmm_init_process_apertures NumNodes) s4;
                result = fmm_init_process_apertures w
            in if result \<noteq> HSAKMT_STATUS_SUCCESS
            then (result, log_call (Call_close fd) s5)
            else
              let s6 = log_call (Call_init_process_doorbells NumNodes) s5;
                  result = init_process_doorbells w
              in if result \<noteq> HSAKMT_STATUS_SUCCESS
              then (result,
                    log_call (Call_close fd) (log_call Call_fmm_destroy_process_apertures s6))
              else
                let s7 = log_call (Call_init_device_debugging_memory NumNodes) s6;
                    s8 = log_call (Call_init_counter_props NumNodes) s7;
                    s9 = (if \<not> atfork_installed s8
                          then (log_call Call_pthread_atfork s8)\<lparr>atfork_installed := True\<rparr>
                          else s8)
                in (result, s9))"

definition hsaKmtOpenKFD :: "header \<Rightarrow> sys \<Rightarrow> kfd_state \<Rightarrow> HSAKMT_STATUS \<times> kfd_state" where
  "hsaKmtOpenKFD K w s =
     (case is_forked_child (getpid w) s of (forked, s1) \<Rightarrow>
        let s2 = (if forked then clear_after_fork s1 else s1)
        in if kfd_open_count s2 = 0 then first_open K w s2
           else (HSAKMT_STATUS_KERNEL_ALREADY_OPENED,
                 s2\<lparr>kfd_open_count := kfd_open_count s2 + 1\<rparr>))"

definition hsaKmtCloseKFD :: "kfd_state \<Rightarrow> HSAKMT_STATUS \<times> kfd_state" where
  "hsaKmtCloseKFD s =
     (if kfd_open_count s > 0 then
        let s1 = s\<lparr>kfd_open_count := kfd_open_count s - 1\<rparr>
        in if kfd_open_count s1 = 0 then
             let s2 = log_call Call_destroy_counter_props s1;
                 s3 = log_call Call_destroy_device_debugging_memory s2;
                 s4 = log_call Call_destroy_process_doorbells s3;
                 s5 = log_call Call_fmm_destroy_process_apertures s4
             in (HSAKMT_STATUS_SUCCESS, close_if_marked s5)
           else (HSAKMT_STATUS_SUCCESS, s1)
      else (HSAKMT_STATUS_KERNEL_IO_CHANNEL_NOT_OPENED, s))"

subsection \<open>Sequences of calls, and what they do to the device\<close>

text \<open>
  \<open>open_times\<close> calls \<^verbatim>\<open>hsaKmtOpenKFD\<close> once for every element of a list (each call
  meets its own answers of the outside), \<open>close_times\<close> calls \<^verbatim>\<open>hsaKmtCloseKFD\<close> a
  number of times; both collect the results.
\<close>

fun open_times :: "header \<Rightarrow> sys list \<Rightarrow> kfd_state \<Rightarrow> HSAKMT_STATUS list \<times> kfd_state" where
  "open_times K [] s = ([], s)"
| "open_times K (w # ws) s =
     (case hsaKmtOpenKFD K w s of (r, s1) \<Rightarrow>
        case open_times K ws s1 of (rs, s2) \<Rightarrow> (r # rs, s2))"

fun close_times :: "nat \<Rightarrow> kfd_state \<Rightarrow> HSAKMT_STATUS list \<times> kfd_state" where
  "close_times 0 s = ([], s)"
| "close_times (Suc n) s =
     (case hsaKmtCloseKFD s of (r, s1) \<Rightarrow>
        case close_times n s1 of (rs, s2) \<Rightarrow> (r # rs, s2))"

fun is_device_open :: "call \<Rightarrow> bool" where
  "is_device_open (Call_open fd) = (fd \<noteq> - 1)"
| "is_device_open _ = False"

fun is_device_close :: "call \<Rightarrow> bool" where
  "is_device_close (Call_close fd) = True"
| "is_device_close _ = False"

definition device_opens :: "call list \<Rightarrow> nat" where
  "device_opens cs = length (filter is_device_open cs)"

definition device_closes :: "call list \<Rightarrow> nat" where
  "device_closes cs = length (filter is_device_close cs)"

subsection \<open>Concrete inputs\<close>

text \<open>
  A header with the debug levels of the library and sixteen device families, and an
  outside where the environment is empty and every collaborator succeeds: process 100,
  descriptor 3, pages of 4096 bytes, two nodes.
\<close>

definition sample_header :: header where
  "sample_header =
     \<lparr>CHIP_LAST = 16, HSAKMT_DEBUG_LEVEL_DEFAULT = - 1, HSAKMT_DEBUG_LEVEL_ERR = 3,
      HSAKMT_DEBUG_LEVEL_DEBUG = 7\<rparr>"

definition plain_sys :: sys where
  "plain_sys =
     \<lparr>getpid = 100, getenv = (\<lambda>name. None), open_kfd = 3, sysconf_PAGESIZE = 4096,
      topology_sysfs_get_system_props = (HSAKMT_STATUS_SUCCESS, 2),
      fmm_init_process_apertures = HSAKMT_STATUS_SUCCESS,
      init_process_doorbells = HSAKMT_STATUS_SUCCESS,
      init_device_debugging_memory = HSAKMT_STATUS_SUCCESS,
      init_counter_props = HSAKMT_STATUS_SUCCESS\<rparr>"




text \<open>
  Whether a descriptor is open after the calls of a log: the last \<^verbatim>\<open>open\<close> that
  returned it comes after the last \<^verbatim>\<open>close\<close> of it.
\<close>

definition descriptor_open :: "call list \<Rightarrow> int \<Rightarrow> bool" where
  "descriptor_open cs fd =
     foldl (\<lambda>b c. if c = Call_open fd then True
                   else if c = Call_close fd then False else b) False cs"

section \<open>Properties\<close>

subsection \<open>Auxiliary facts\<close>


lemmas open_eval = hsaKmtOpenKFD_def is_forked_child_def first_open_def init_vars_from_env_def
  initial_state_def plain_sys_def log_call_def init_page_size_def Let_def

lemmas close_eval = hsaKmtCloseKFD_def close_if_marked_def

text \<open>
  \<^verbatim>\<open>init_vars_from_env\<close> writes the five settings and nothing else, and whether it
  succeeds depends on the environment only.
\<close>

lemma init_vars_frame:
  "snd (init_vars_from_env K w s) =
     s\<lparr>hsakmt_debug_level := hsakmt_debug_level (snd (init_vars_from_env K w s)),
       zfb_support := zfb_support (snd (init_vars_from_env K w s)),
       force_asic_name := force_asic_name (snd (init_vars_from_env K w s)),
       force_asic_entry := force_asic_entry (snd (init_vars_from_env K w s)),
       force_asic := force_asic (snd (init_vars_from_env K w s))\<rparr>"
proof (cases "getenv w ''HSAKMT_DEBUG_LEVEL''"; cases "getenv w ''HSA_ZFB''";
       cases "getenv w ''HSA_FORCE_ASIC_TYPE''")
qed (simp_all add: init_vars_from_env_def Let_def store_scanned_name_def
       split: prod.splits option.splits scan_val.splits)

lemma init_vars_status_indep:
  "fst (init_vars_from_env K w s) = fst (init_vars_from_env K w t)"
proof (cases "getenv w ''HSAKMT_DEBUG_LEVEL''"; cases "getenv w ''HSA_ZFB''";
       cases "getenv w ''HSA_FORCE_ASIC_TYPE''")
qed (simp_all add: init_vars_from_env_def Let_def split: prod.splits option.splits)

lemma init_vars_keeps:
  "calls (snd (init_vars_from_env K w s)) = calls s"
  "kfd_fd (snd (init_vars_from_env K w s)) = kfd_fd s"
  "kfd_open_count (snd (init_vars_from_env K w s)) = kfd_open_count s"
  "parent_pid (snd (init_vars_from_env K w s)) = parent_pid s"
  "hsakmt_forked (snd (init_vars_from_env K w s)) = hsakmt_forked s"
  "atfork_installed (snd (init_vars_from_env K w s)) = atfork_installed s"
  by (subst init_vars_frame, simp)+

text \<open>What the first-open branch returns and logs, stage by stage.\<close>

lemma first_open_cases:
  assumes "init_vars_from_env K w s = (r0, s1)"
    and "topology_sysfs_get_system_props w = (rt, n)"
  shows "fst (first_open K w s) =
      (if r0 \<noteq> HSAKMT_STATUS_SUCCESS then r0
       else if open_kfd w = - 1 then HSAKMT_STATUS_KERNEL_IO_CHANNEL_NOT_OPENED
       else if rt \<noteq> HSAKMT_STATUS_SUCCESS then rt
       else if fmm_init_process_apertures w \<noteq> HSAKMT_STATUS_SUCCESS
         then fmm_init_process_apertures w
       else init_process_doorbells w)"
    and "calls (snd (first_open K w s)) = calls s @
      (if r0 \<noteq> HSAKMT_STATUS_SUCCESS then []
       else if open_kfd w = - 1 then [Call_open (open_kfd w)]
       else if rt \<noteq> HSAKMT_STATUS_SUCCESS
         then [Call_open (open_kfd w), Call_topology_sysfs_get_system_props,
               Call_close (open_kfd w)]
       else if fmm_init_process_apertures w \<noteq> HSAKMT_STATUS_SUCCESS
         then [Call_open (open_kfd w), Call_topology_sysfs_get_system_props,
               Call_fmm_init_process_apertures n, Call_close (open_kfd w)]
       else if init_process_doorbells w \<noteq> HSAKMT_STATUS_SUCCESS
         then [Call_open (open_kfd w), Call_topology_sysfs_get_system_props,
               Call_fmm_init_process_apertures n, Call_init_process_doorbells n,
               Call_fmm_destroy_process_apertures, Call_close (open_kfd w)]
       else [Call_open (open_kfd w), Call_topology_sysfs_get_system_props,
             Call_fmm_init_process_apertures n, Call_init_process_doorbells n,
             Call_init_device_debugging_memory n, Call_init_counter_props n] @
            (if atfork_installed s then [] else [Call_pthread_atfork]))"
    and "kfd_open_count (snd (first_open K w s)) =
      (if r0 \<noteq> HSAKMT_STATUS_SUCCESS \<or> open_kfd w = - 1 then kfd_open_count s else 1)"
    and "kfd_fd (snd (first_open K w s)) =
      (if r0 \<noteq> HSAKMT_STATUS_SUCCESS \<or> open_kfd w = - 1 then kfd_fd s else open_kfd w)"
    and "parent_pid (snd (first_open K w s)) = parent_pid s"
    and "hsakmt_forked (snd (first_open K w s)) = hsakmt_forked s"
proof -
  have k: "calls s1 = calls s" "kfd_fd s1 = kfd_fd s" "kfd_open_count s1 = kfd_open_count s"
    "parent_pid s1 = parent_pid s" "hsakmt_forked s1 = hsakmt_forked s"
    "atfork_installed s1 = atfork_installed s"
    using init_vars_keeps [of K w s] assms(1) by simp_all
  show "fst (first_open K w s) =
      (if r0 \<noteq> HSAKMT_STATUS_SUCCESS then r0
       else if open_kfd w = - 1 then HSAKMT_STATUS_KERNEL_IO_CHANNEL_NOT_OPENED
       else if rt \<noteq> HSAKMT_STATUS_SUCCESS then rt
       else if fmm_init_process_apertures w \<noteq> HSAKMT_STATUS_SUCCESS
         then fmm_init_process_apertures w
       else init_process_doorbells w)"
    using assms by (simp add: first_open_def Let_def)
  show "calls (snd (first_open K w s)) = calls s @
      (if r0 \<noteq> HSAKMT_STATUS_SUCCESS then []
       else if open_kfd w = - 1 then [Call_open (open_kfd w)]
       else if rt \<noteq> HSAKMT_STATUS_SUCCESS
         then [Call_open (open_kfd w), Call_topology_sysfs_get_system_props,
               Call_close (open_kfd w)]
       else if fmm_init_process_apertures w \<noteq> HSAKMT_STATUS_SUCCESS
         then [Call_open (open_kfd w), Call_topology_sysfs_get_system_props,
               Call_fmm_init_process_apertures n, Call_close (open_kfd w)]
       else if init_process_doorbells w \<noteq> HSAKMT_STATUS_SUCCESS
         then [Call_open (open_kfd w), Call_topology_sysfs_get_system_props,
               Call_fmm_init_process_apertures n, Call_init_process_doorbells n,
               Call_fmm_destroy_process_apertures, Call_close (open_kfd w)]
       else [Call_open (open_kfd w), Call_topology_sysfs_get_system_props,
             Call_fmm_init_process_apertures n, Call_init_process_doorbells n,
             Call_init_device_debugging_memory n, Call_init_counter_props n] @
            (if atfork_installed s then [] else [Call_pthread_atfork]))"
    using assms k by (simp add: first_open_def Let_def log_call_def init_page_size_def)
  show "kfd_open_count (snd (first_open K w s)) =
      (if r0 \<noteq> HSAKMT_STATUS_SUCCESS \<or> open_kfd w = - 1 then kfd_open_count s else 1)"
    using assms k by (simp add: first_open_def Let_def log_call_def init_page_size_def)
  show "kfd_fd (snd (first_open K w s)) =
      (if r0 \<noteq> HSAKMT_STATUS_SUCCESS \<or> open_kfd w = - 1 then kfd_fd s else open_kfd w)"
    using assms k by (simp add: first_open_def Let_def log_call_def init_page_size_def)
  show "parent_pid (snd (first_open K w s)) = parent_pid s"
    using assms k by (simp add: first_open_def Let_def log_call_def init_page_size_def)
  show "hsakmt_forked (snd (first_open K w s)) = hsakmt_forked s"
    using assms k by (simp add: first_open_def Let_def log_call_def init_page_size_def)
qed

lemma open_unforked:
  assumes "kfd_open_count s = 0" "\<not> hsakmt_forked s"
    "parent_pid s = - 1 \<or> parent_pid s = getpid w"
  shows "hsaKmtOpenKFD K w s = first_open K w (s\<lparr>parent_pid := getpid w\<rparr>)"
proof (cases "parent_pid s = - 1")
  case True
  with assms show ?thesis by (simp add: hsaKmtOpenKFD_def is_forked_child_def)
next
  case False
  with assms have p: "getpid w = parent_pid s" by simp
  have e: "s\<lparr>parent_pid := getpid w\<rparr> = s" unfolding p by simp
  have "hsaKmtOpenKFD K w s = first_open K w s"
    using assms False by (simp add: hsaKmtOpenKFD_def is_forked_child_def)
  then show ?thesis by (simp only: e)
qed









text \<open>
  Counting: with a positive count and no fork every further open adds one, every close
  but the last takes one away, and the last close tears down.
\<close>

lemma open_counted:
  "0 < kfd_open_count s \<Longrightarrow> \<not> hsakmt_forked s \<Longrightarrow> parent_pid s = getpid w \<Longrightarrow>
   hsaKmtOpenKFD K w s =
     (HSAKMT_STATUS_KERNEL_ALREADY_OPENED, s\<lparr>kfd_open_count := kfd_open_count s + 1\<rparr>)"
  by (simp add: hsaKmtOpenKFD_def is_forked_child_def)

lemma open_times_counted:
  "0 < kfd_open_count s \<Longrightarrow> \<not> hsakmt_forked s \<Longrightarrow> \<forall>v \<in> set ws. getpid v = parent_pid s \<Longrightarrow>
   open_times K ws s =
     (replicate (length ws) HSAKMT_STATUS_KERNEL_ALREADY_OPENED,
      s\<lparr>kfd_open_count := kfd_open_count s + length ws\<rparr>)"
proof (induction ws arbitrary: s)
  case Nil
  then show ?case by simp
next
  case (Cons v ws)
  let ?s1 = "s\<lparr>kfd_open_count := kfd_open_count s + 1\<rparr>"
  have step: "hsaKmtOpenKFD K v s = (HSAKMT_STATUS_KERNEL_ALREADY_OPENED, ?s1)"
    using Cons.prems by (intro open_counted) simp_all
  have "open_times K ws ?s1 =
     (replicate (length ws) HSAKMT_STATUS_KERNEL_ALREADY_OPENED,
      ?s1\<lparr>kfd_open_count := kfd_open_count ?s1 + length ws\<rparr>)"
    using Cons.prems by (intro Cons.IH) simp_all
  with step show ?case by simp
qed

lemma close_counted:
  "1 < kfd_open_count s \<Longrightarrow>
   hsaKmtCloseKFD s = (HSAKMT_STATUS_SUCCESS, s\<lparr>kfd_open_count := kfd_open_count s - 1\<rparr>)"
  by (simp add: hsaKmtCloseKFD_def)

lemma close_times_counted:
  "n < kfd_open_count s \<Longrightarrow>
   close_times n s =
     (replicate n HSAKMT_STATUS_SUCCESS, s\<lparr>kfd_open_count := kfd_open_count s - n\<rparr>)"
proof (induction n arbitrary: s)
  case 0
  then show ?case by simp
next
  case (Suc n)
  let ?s1 = "s\<lparr>kfd_open_count := kfd_open_count s - 1\<rparr>"
  have step: "hsaKmtCloseKFD s = (HSAKMT_STATUS_SUCCESS, ?s1)"
    using Suc.prems by (intro close_counted) simp
  have "close_times n ?s1 =
     (replicate n HSAKMT_STATUS_SUCCESS, ?s1\<lparr>kfd_open_count := kfd_open_count ?s1 - n\<rparr>)"
    using Suc.prems by (intro Suc.IH) simp
  with step show ?case by simp
qed

lemma close_final:
  "kfd_open_count s = 1 \<Longrightarrow>
   hsaKmtCloseKFD s =
     (HSAKMT_STATUS_SUCCESS,
      s\<lparr>kfd_fd := 0, kfd_open_count := 0,
        calls := calls s @
          [Call_destroy_counter_props, Call_destroy_device_debugging_memory,
           Call_destroy_process_doorbells, Call_fmm_destroy_process_apertures] @
          (if kfd_fd s \<noteq> 0 then [Call_close (kfd_fd s)] else [])\<rparr>)"
  by (simp add: hsaKmtCloseKFD_def close_if_marked_def log_call_def)

lemma close_times_all:
  "kfd_open_count s = Suc n \<Longrightarrow>
   close_times (Suc n) s =
     (replicate (Suc n) HSAKMT_STATUS_SUCCESS,
      s\<lparr>kfd_fd := 0, kfd_open_count := 0,
        calls := calls s @
          [Call_destroy_counter_props, Call_destroy_device_debugging_memory,
           Call_destroy_process_doorbells, Call_fmm_destroy_process_apertures] @
          (if kfd_fd s \<noteq> 0 then [Call_close (kfd_fd s)] else [])\<rparr>)"
proof (induction n arbitrary: s)
  case 0
  then show ?case using close_final [of s] by simp
next
  case (Suc n)
  let ?s1 = "s\<lparr>kfd_open_count := kfd_open_count s - 1\<rparr>"
  have step: "hsaKmtCloseKFD s = (HSAKMT_STATUS_SUCCESS, ?s1)"
    using Suc.prems by (intro close_counted) simp
  have "kfd_open_count ?s1 = Suc n" using Suc.prems by simp
  from Suc.IH [OF this] step show ?case by simp
qed

lemma first_open_success:
  assumes "fst (first_open K w s) = HSAKMT_STATUS_SUCCESS"
  shows "open_kfd w \<noteq> - 1"
    and "kfd_open_count (snd (first_open K w s)) = 1"
    and "kfd_fd (snd (first_open K w s)) = open_kfd w"
    and "calls (snd (first_open K w s)) = calls s @
           [Call_open (open_kfd w), Call_topology_sysfs_get_system_props,
            Call_fmm_init_process_apertures (snd (topology_sysfs_get_system_props w)),
            Call_init_process_doorbells (snd (topology_sysfs_get_system_props w)),
            Call_init_device_debugging_memory (snd (topology_sysfs_get_system_props w)),
            Call_init_counter_props (snd (topology_sysfs_get_system_props w))] @
           (if atfork_installed s then [] else [Call_pthread_atfork])"
proof -
  obtain r0 s1 where iv: "init_vars_from_env K w s = (r0, s1)"
    by (cases "init_vars_from_env K w s")
  obtain rt n where tp: "topology_sysfs_get_system_props w = (rt, n)"
    by (cases "topology_sysfs_get_system_props w")
  note fo = first_open_cases [OF iv tp]
  have ok: "r0 = HSAKMT_STATUS_SUCCESS \<and> open_kfd w \<noteq> - 1 \<and> rt = HSAKMT_STATUS_SUCCESS \<and>
      fmm_init_process_apertures w = HSAKMT_STATUS_SUCCESS \<and>
      init_process_doorbells w = HSAKMT_STATUS_SUCCESS"
    using assms fo(1) by (auto split: if_splits)
  show "open_kfd w \<noteq> - 1" using ok by simp
  show "kfd_open_count (snd (first_open K w s)) = 1" using ok fo(3) by simp
  show "kfd_fd (snd (first_open K w s)) = open_kfd w" using ok fo(4) by simp
  show "calls (snd (first_open K w s)) = calls s @
           [Call_open (open_kfd w), Call_topology_sysfs_get_system_props,
            Call_fmm_init_process_apertures (snd (topology_sysfs_get_system_props w)),
            Call_init_process_doorbells (snd (topology_sysfs_get_system_props w)),
            Call_init_device_debugging_memory (snd (topology_sysfs_get_system_props w)),
            Call_init_counter_props (snd (topology_sysfs_get_system_props w))] @
           (if atfork_installed s then [] else [Call_pthread_atfork])"
    using ok fo(2) tp by simp
qed



subsection \<open>Closing\<close>

text \<open>
  C5. \<^verbatim>\<open>hsaKmtCloseKFD\<close> called while \<^verbatim>\<open>kfd_open_count\<close> is 0 returns
  \<^verbatim>\<open>HSAKMT_STATUS_KERNEL_IO_CHANNEL_NOT_OPENED\<close> and returns the state it was given:
  descriptor, count, settings and the log of collaborator calls are all unchanged.
\<close>

theorem close_unopened:
  "kfd_open_count s = 0 \<Longrightarrow>
   hsaKmtCloseKFD s = (HSAKMT_STATUS_KERNEL_IO_CHANNEL_NOT_OPENED, s)"
  by (simp add: hsaKmtCloseKFD_def)

theorem close_unopened_witness:
  "kfd_open_count initial_state = 0 \<and>
   hsaKmtCloseKFD initial_state = (HSAKMT_STATUS_KERNEL_IO_CHANNEL_NOT_OPENED, initial_state)"
  using close_unopened [of initial_state] by (simp add: initial_state_def)

text \<open>
  The descriptor that \<^verbatim>\<open>open\<close> returns is held even when it is 0: only \<open>-1\<close> is a
  failure, and the exit of a failed first open closes it without a test.
\<close>

lemma rollback_closes_zero:
  "calls (snd (hsaKmtOpenKFD sample_header
       (plain_sys\<lparr>open_kfd := 0,
          topology_sysfs_get_system_props := (HSAKMT_STATUS_ERROR, 0)\<rparr>) initial_state)) =
     [Call_open 0, Call_topology_sysfs_get_system_props, Call_close 0]"
  by (simp add: open_eval)

text \<open>
  C4. The last close runs the teardown chain backwards and returns success, but it
  releases the device only through \<^verbatim>\<open>if (kfd_fd)\<close>, which misses a held descriptor 0
  (a process whose standard input is closed gets it from \<^verbatim>\<open>open\<close>). After an open on
  descriptor 0 the count is 1; the close that takes it to 0 succeeds, tears the four
  subsystems down in the order counters, debug memory, doorbells, apertures, and the log
  ends there: the device handle is not released.
\<close>

theorem last_close_descriptor_zero:
  "kfd_open_count (snd (hsaKmtOpenKFD sample_header (plain_sys\<lparr>open_kfd := 0\<rparr>) initial_state)) = 1 \<and>
   fst (hsaKmtCloseKFD (snd (hsaKmtOpenKFD sample_header (plain_sys\<lparr>open_kfd := 0\<rparr>) initial_state)))
     = HSAKMT_STATUS_SUCCESS \<and>
   calls (snd (hsaKmtCloseKFD
       (snd (hsaKmtOpenKFD sample_header (plain_sys\<lparr>open_kfd := 0\<rparr>) initial_state)))) =
     [Call_open 0, Call_topology_sysfs_get_system_props,
      Call_fmm_init_process_apertures 2, Call_init_process_doorbells 2,
      Call_init_device_debugging_memory 2, Call_init_counter_props 2, Call_pthread_atfork,
      Call_destroy_counter_props, Call_destroy_device_debugging_memory,
      Call_destroy_process_doorbells, Call_fmm_destroy_process_apertures]"
  by (simp add: open_eval close_eval)

subsection \<open>Opening\<close>

text \<open>
  C7. A call of \<^verbatim>\<open>hsaKmtOpenKFD\<close> while the count is positive and no fork has
  happened (the flag is clear, and the recorded process is the caller or none is
  recorded, as in a child after its recovering open) returns
  \<^verbatim>\<open>HSAKMT_STATUS_KERNEL_ALREADY_OPENED\<close> and adds one to the count. Besides the count
  only the recorded process is written, with the caller. The settings are not reloaded
  and the log gains no call, so the device is not opened and neither the topology query
  nor any init function runs.
\<close>

theorem open_again:
  "0 < kfd_open_count s \<Longrightarrow> \<not> hsakmt_forked s \<Longrightarrow>
   parent_pid s = - 1 \<or> parent_pid s = getpid w \<Longrightarrow>
   hsaKmtOpenKFD K w s =
     (HSAKMT_STATUS_KERNEL_ALREADY_OPENED,
      s\<lparr>kfd_open_count := kfd_open_count s + 1, parent_pid := getpid w\<rparr>)"
proof (cases "parent_pid s = - 1")
  case True
  assume "0 < kfd_open_count s" "\<not> hsakmt_forked s"
  with True show ?thesis by (simp add: hsaKmtOpenKFD_def is_forked_child_def)
next
  case False
  assume a: "0 < kfd_open_count s" "\<not> hsakmt_forked s"
    "parent_pid s = - 1 \<or> parent_pid s = getpid w"
  with False have p: "getpid w = parent_pid s" by simp
  have "hsaKmtOpenKFD K w s =
     (HSAKMT_STATUS_KERNEL_ALREADY_OPENED, s\<lparr>kfd_open_count := kfd_open_count s + 1\<rparr>)"
    using a False by (simp add: hsaKmtOpenKFD_def is_forked_child_def)
  then show ?thesis unfolding p by simp
qed

theorem open_again_witness:
  "hsaKmtOpenKFD sample_header plain_sys
       (initial_state\<lparr>kfd_fd := 3, kfd_open_count := 1, parent_pid := 100\<rparr>) =
     (HSAKMT_STATUS_KERNEL_ALREADY_OPENED,
      initial_state\<lparr>kfd_fd := 3, kfd_open_count := 2, parent_pid := 100\<rparr>) \<and>
   hsaKmtOpenKFD sample_header plain_sys
       (initial_state\<lparr>kfd_fd := 3, kfd_open_count := 1\<rparr>) =
     (HSAKMT_STATUS_KERNEL_ALREADY_OPENED,
      initial_state\<lparr>kfd_fd := 3, kfd_open_count := 2, parent_pid := 100\<rparr>)"
  using open_again [of "initial_state\<lparr>kfd_fd := 3, kfd_open_count := 1, parent_pid := 100\<rparr>"
      plain_sys sample_header]
    open_again [of "initial_state\<lparr>kfd_fd := 3, kfd_open_count := 1\<rparr>"
      plain_sys sample_header]
  by (simp add: initial_state_def plain_sys_def)

text \<open>
  C10. In a first open (count 0, no fork) where the settings load, the device opens,
  the topology query answers \<open>n\<close> nodes and the apertures and the doorbells
  initialise, the call succeeds whatever \<^verbatim>\<open>init_device_debugging_memory\<close> and
  \<^verbatim>\<open>init_counter_props\<close> return: every stage of the chain is called once, nothing is
  torn down or closed, the count is 1 and the result is \<^verbatim>\<open>HSAKMT_STATUS_SUCCESS\<close>.
\<close>

theorem optional_stages:
  assumes "kfd_open_count s = 0" "\<not> hsakmt_forked s"
    "parent_pid s = - 1 \<or> parent_pid s = getpid w"
    and "fst (init_vars_from_env K w s) = HSAKMT_STATUS_SUCCESS"
    and "open_kfd w \<noteq> - 1"
    and "topology_sysfs_get_system_props w = (HSAKMT_STATUS_SUCCESS, n)"
    and "fmm_init_process_apertures w = HSAKMT_STATUS_SUCCESS"
    and "init_process_doorbells w = HSAKMT_STATUS_SUCCESS"
  shows "fst (hsaKmtOpenKFD K w s) = HSAKMT_STATUS_SUCCESS \<and>
    kfd_open_count (snd (hsaKmtOpenKFD K w s)) = 1 \<and>
    kfd_fd (snd (hsaKmtOpenKFD K w s)) = open_kfd w \<and>
    calls (snd (hsaKmtOpenKFD K w s)) = calls s @
      [Call_open (open_kfd w), Call_topology_sysfs_get_system_props,
       Call_fmm_init_process_apertures n, Call_init_process_doorbells n,
       Call_init_device_debugging_memory n, Call_init_counter_props n] @
      (if atfork_installed s then [] else [Call_pthread_atfork])"
proof -
  let ?t = "s\<lparr>parent_pid := getpid w\<rparr>"
  obtain s1 where iv: "init_vars_from_env K w ?t = (HSAKMT_STATUS_SUCCESS, s1)"
    using assms(4) init_vars_status_indep [of K w ?t s]
    by (cases "init_vars_from_env K w ?t") simp
  have o: "hsaKmtOpenKFD K w s = first_open K w ?t"
    using assms(1-3) by (rule open_unforked)
  show ?thesis
    unfolding o using first_open_cases [OF iv assms(6)] assms(5,7,8) by simp
qed

theorem optional_stages_witness:
  "fst (hsaKmtOpenKFD sample_header
         (plain_sys\<lparr>init_device_debugging_memory := HSAKMT_STATUS_ERROR,
                    init_counter_props := HSAKMT_STATUS_ERROR\<rparr>) initial_state)
     = HSAKMT_STATUS_SUCCESS \<and>
   kfd_open_count (snd (hsaKmtOpenKFD sample_header
         (plain_sys\<lparr>init_device_debugging_memory := HSAKMT_STATUS_ERROR,
                    init_counter_props := HSAKMT_STATUS_ERROR\<rparr>) initial_state)) = 1 \<and>
   calls (snd (hsaKmtOpenKFD sample_header
         (plain_sys\<lparr>init_device_debugging_memory := HSAKMT_STATUS_ERROR,
                    init_counter_props := HSAKMT_STATUS_ERROR\<rparr>) initial_state)) =
     [Call_open 3, Call_topology_sysfs_get_system_props,
      Call_fmm_init_process_apertures 2, Call_init_process_doorbells 2,
      Call_init_device_debugging_memory 2, Call_init_counter_props 2, Call_pthread_atfork]"
  using optional_stages [of initial_state
      "plain_sys\<lparr>init_device_debugging_memory := HSAKMT_STATUS_ERROR,
                 init_counter_props := HSAKMT_STATUS_ERROR\<rparr>" sample_header 2]
  by (simp add: initial_state_def plain_sys_def init_vars_from_env_def)

text \<open>
  C1, as the source has it. In a first open where the settings load, the device opens
  and the topology query answers \<open>n\<close> nodes: if the apertures (stage 1) fail, no
  teardown is called, the descriptor just opened is closed and the error of the
  apertures is returned; if the apertures initialise and the doorbells (stage 2) fail,
  the apertures are torn down once, the doorbells are not, the descriptor is closed and
  the error of the doorbells is returned. These are the two stages whose failure ends
  the open; nothing is said here about \<^verbatim>\<open>kfd_open_count\<close> and \<^verbatim>\<open>kfd_fd\<close> afterwards.
\<close>

theorem rollback_on_failure:
  assumes "kfd_open_count s = 0" "\<not> hsakmt_forked s"
    "parent_pid s = - 1 \<or> parent_pid s = getpid w"
    and "fst (init_vars_from_env K w s) = HSAKMT_STATUS_SUCCESS"
    and "open_kfd w \<noteq> - 1"
    and "topology_sysfs_get_system_props w = (HSAKMT_STATUS_SUCCESS, n)"
  shows "(fmm_init_process_apertures w \<noteq> HSAKMT_STATUS_SUCCESS \<longrightarrow>
      fst (hsaKmtOpenKFD K w s) = fmm_init_process_apertures w \<and>
      calls (snd (hsaKmtOpenKFD K w s)) = calls s @
        [Call_open (open_kfd w), Call_topology_sysfs_get_system_props,
         Call_fmm_init_process_apertures n, Call_close (open_kfd w)])
    \<and> (fmm_init_process_apertures w = HSAKMT_STATUS_SUCCESS \<and>
       init_process_doorbells w \<noteq> HSAKMT_STATUS_SUCCESS \<longrightarrow>
      fst (hsaKmtOpenKFD K w s) = init_process_doorbells w \<and>
      calls (snd (hsaKmtOpenKFD K w s)) = calls s @
        [Call_open (open_kfd w), Call_topology_sysfs_get_system_props,
         Call_fmm_init_process_apertures n, Call_init_process_doorbells n,
         Call_fmm_destroy_process_apertures, Call_close (open_kfd w)])"
proof -
  let ?t = "s\<lparr>parent_pid := getpid w\<rparr>"
  obtain s1 where iv: "init_vars_from_env K w ?t = (HSAKMT_STATUS_SUCCESS, s1)"
    using assms(4) init_vars_status_indep [of K w ?t s]
    by (cases "init_vars_from_env K w ?t") simp
  have o: "hsaKmtOpenKFD K w s = first_open K w ?t"
    using assms(1-3) by (rule open_unforked)
  show ?thesis
    unfolding o using first_open_cases(1,2) [OF iv assms(6)] assms(5) by simp
qed

theorem rollback_on_failure_witness:
  "fst (hsaKmtOpenKFD sample_header
         (plain_sys\<lparr>fmm_init_process_apertures := HSAKMT_STATUS_ERROR\<rparr>) initial_state)
     = HSAKMT_STATUS_ERROR \<and>
   calls (snd (hsaKmtOpenKFD sample_header
         (plain_sys\<lparr>fmm_init_process_apertures := HSAKMT_STATUS_ERROR\<rparr>) initial_state)) =
     [Call_open 3, Call_topology_sysfs_get_system_props, Call_fmm_init_process_apertures 2,
      Call_close 3] \<and>
   fst (hsaKmtOpenKFD sample_header
         (plain_sys\<lparr>init_process_doorbells := HSAKMT_STATUS_OTHER 6\<rparr>) initial_state)
     = HSAKMT_STATUS_OTHER 6 \<and>
   calls (snd (hsaKmtOpenKFD sample_header
         (plain_sys\<lparr>init_process_doorbells := HSAKMT_STATUS_OTHER 6\<rparr>) initial_state)) =
     [Call_open 3, Call_topology_sysfs_get_system_props, Call_fmm_init_process_apertures 2,
      Call_init_process_doorbells 2, Call_fmm_destroy_process_apertures, Call_close 3]"
  using
    rollback_on_failure [where s = initial_state and K = sample_header and n = 2
      and w = "plain_sys\<lparr>fmm_init_process_apertures := HSAKMT_STATUS_ERROR\<rparr>"]
    rollback_on_failure [where s = initial_state and K = sample_header and n = 2
      and w = "plain_sys\<lparr>init_process_doorbells := HSAKMT_STATUS_OTHER 6\<rparr>"]
  by (simp add: initial_state_def plain_sys_def init_vars_from_env_def)

text \<open>
  C1, as it is stated, fails at the third stage of the chain: when the debug memory
  cannot be initialised the open does not return an error, no earlier stage is torn
  down and the descriptor stays open.
\<close>

theorem debug_failure_no_rollback:
  "fst (hsaKmtOpenKFD sample_header
         (plain_sys\<lparr>init_device_debugging_memory := HSAKMT_STATUS_ERROR\<rparr>) initial_state)
     = HSAKMT_STATUS_SUCCESS \<and>
   calls (snd (hsaKmtOpenKFD sample_header
         (plain_sys\<lparr>init_device_debugging_memory := HSAKMT_STATUS_ERROR\<rparr>) initial_state))
     = [Call_open 3, Call_topology_sysfs_get_system_props,
        Call_fmm_init_process_apertures 2, Call_init_process_doorbells 2,
        Call_init_device_debugging_memory 2, Call_init_counter_props 2, Call_pthread_atfork] \<and>
   kfd_open_count (snd (hsaKmtOpenKFD sample_header
         (plain_sys\<lparr>init_device_debugging_memory := HSAKMT_STATUS_ERROR\<rparr>) initial_state)) = 1"
  by (simp add: open_eval)

text \<open>
  C2. The invariant does not survive a failed first open. When the topology query
  fails, \<^verbatim>\<open>hsaKmtOpenKFD\<close> returns the error and closes descriptor 3, but the
  assignments \<^verbatim>\<open>kfd_fd = fd; kfd_open_count = 1;\<close> made before the query are not
  undone: the count is 1 while the descriptor in \<^verbatim>\<open>kfd_fd\<close> is no longer open. The
  next open then answers \<^verbatim>\<open>HSAKMT_STATUS_KERNEL_ALREADY_OPENED\<close> without opening the
  device.
\<close>

theorem failed_open_keeps_count:
  "fst (hsaKmtOpenKFD sample_header
         (plain_sys\<lparr>topology_sysfs_get_system_props := (HSAKMT_STATUS_ERROR, 0)\<rparr>)
         initial_state) = HSAKMT_STATUS_ERROR \<and>
   calls (snd (hsaKmtOpenKFD sample_header
         (plain_sys\<lparr>topology_sysfs_get_system_props := (HSAKMT_STATUS_ERROR, 0)\<rparr>)
         initial_state)) =
     [Call_open 3, Call_topology_sysfs_get_system_props, Call_close 3] \<and>
   kfd_open_count (snd (hsaKmtOpenKFD sample_header
         (plain_sys\<lparr>topology_sysfs_get_system_props := (HSAKMT_STATUS_ERROR, 0)\<rparr>)
         initial_state)) = 1 \<and>
   kfd_fd (snd (hsaKmtOpenKFD sample_header
         (plain_sys\<lparr>topology_sysfs_get_system_props := (HSAKMT_STATUS_ERROR, 0)\<rparr>)
         initial_state)) = 3 \<and>
   \<not> descriptor_open (calls (snd (hsaKmtOpenKFD sample_header
         (plain_sys\<lparr>topology_sysfs_get_system_props := (HSAKMT_STATUS_ERROR, 0)\<rparr>)
         initial_state))) 3 \<and>
   hsaKmtOpenKFD sample_header plain_sys
     (snd (hsaKmtOpenKFD sample_header
         (plain_sys\<lparr>topology_sysfs_get_system_props := (HSAKMT_STATUS_ERROR, 0)\<rparr>)
         initial_state)) =
     (HSAKMT_STATUS_KERNEL_ALREADY_OPENED,
      (snd (hsaKmtOpenKFD sample_header
         (plain_sys\<lparr>topology_sysfs_get_system_props := (HSAKMT_STATUS_ERROR, 0)\<rparr>)
         initial_state))\<lparr>kfd_open_count := 2\<rparr>)"
  by (simp add: open_eval descriptor_open_def)

subsection \<open>Open and close in sequence\<close>

text \<open>
  What a sequence of opens and closes by one process does when the descriptor is not 0.
  Starting with count 0 and no fork, let the first of \<open>length ws + 1\<close> opens succeed.
  Then the other opens answer \<^verbatim>\<open>HSAKMT_STATUS_KERNEL_ALREADY_OPENED\<close> and add no call,
  as many closes succeed, all but the last add no call, and the last one tears down and
  closes the descriptor.
\<close>

lemma open_close_balanced:
  assumes "kfd_open_count s = 0" "\<not> hsakmt_forked s"
    "parent_pid s = - 1 \<or> parent_pid s = getpid w"
    and "\<forall>v \<in> set ws. getpid v = getpid w"
    and "fst (hsaKmtOpenKFD K w s) = HSAKMT_STATUS_SUCCESS"
    and "open_kfd w \<noteq> 0"
  shows "fst (open_times K (w # ws) s) =
      HSAKMT_STATUS_SUCCESS # replicate (length ws) HSAKMT_STATUS_KERNEL_ALREADY_OPENED \<and>
    fst (close_times (Suc (length ws)) (snd (open_times K (w # ws) s))) =
      replicate (Suc (length ws)) HSAKMT_STATUS_SUCCESS \<and>
    calls (snd (open_times K (w # ws) s)) = calls (snd (hsaKmtOpenKFD K w s)) \<and>
    calls (snd (close_times (length ws) (snd (open_times K (w # ws) s)))) =
      calls (snd (hsaKmtOpenKFD K w s)) \<and>
    calls (snd (close_times (Suc (length ws)) (snd (open_times K (w # ws) s)))) =
      calls (snd (hsaKmtOpenKFD K w s)) @
        [Call_destroy_counter_props, Call_destroy_device_debugging_memory,
         Call_destroy_process_doorbells, Call_fmm_destroy_process_apertures,
         Call_close (open_kfd w)] \<and>
    device_opens (drop (length (calls s))
      (calls (snd (close_times (Suc (length ws)) (snd (open_times K (w # ws) s)))))) = 1 \<and>
    device_closes (drop (length (calls s))
      (calls (snd (close_times (Suc (length ws)) (snd (open_times K (w # ws) s)))))) = 1"
proof -
  let ?t = "s\<lparr>parent_pid := getpid w\<rparr>"
  obtain r1 s1 where o1: "hsaKmtOpenKFD K w s = (r1, s1)"
    by (cases "hsaKmtOpenKFD K w s")
  have fo: "hsaKmtOpenKFD K w s = first_open K w ?t"
    using assms(1-3) by (rule open_unforked)
  have r1: "r1 = HSAKMT_STATUS_SUCCESS" using assms(5) o1 by simp
  have suc: "fst (first_open K w ?t) = HSAKMT_STATUS_SUCCESS" using assms(5) fo by simp
  have s1: "s1 = snd (first_open K w ?t)" using o1 fo by simp
  obtain r0 s0 where iv: "init_vars_from_env K w ?t = (r0, s0)"
    by (cases "init_vars_from_env K w ?t")
  obtain rt n where tp: "topology_sysfs_get_system_props w = (rt, n)"
    by (cases "topology_sysfs_get_system_props w")
  have fd: "open_kfd w \<noteq> - 1" and c1: "kfd_open_count s1 = 1" and f1: "kfd_fd s1 = open_kfd w"
    and l1: "calls s1 = calls s @
           [Call_open (open_kfd w), Call_topology_sysfs_get_system_props,
            Call_fmm_init_process_apertures (snd (topology_sysfs_get_system_props w)),
            Call_init_process_doorbells (snd (topology_sysfs_get_system_props w)),
            Call_init_device_debugging_memory (snd (topology_sysfs_get_system_props w)),
            Call_init_counter_props (snd (topology_sysfs_get_system_props w))] @
           (if atfork_installed s then [] else [Call_pthread_atfork])"
    using first_open_success [OF suc] s1 by simp_all
  have p1: "parent_pid s1 = getpid w" and k1: "\<not> hsakmt_forked s1"
    using first_open_cases(5,6) [OF iv tp] s1 assms(2) by simp_all
  let ?s2 = "s1\<lparr>kfd_open_count := kfd_open_count s1 + length ws\<rparr>"
  have o2: "open_times K ws s1 =
      (replicate (length ws) HSAKMT_STATUS_KERNEL_ALREADY_OPENED, ?s2)"
    using c1 k1 p1 assms(4) by (intro open_times_counted) simp_all
  have all: "open_times K (w # ws) s =
      (HSAKMT_STATUS_SUCCESS # replicate (length ws) HSAKMT_STATUS_KERNEL_ALREADY_OPENED, ?s2)"
    using o1 r1 o2 by simp
  have e2: "close_times (length ws) ?s2 =
      (replicate (length ws) HSAKMT_STATUS_SUCCESS,
       ?s2\<lparr>kfd_open_count := kfd_open_count ?s2 - length ws\<rparr>)"
    using c1 by (intro close_times_counted) simp
  have c2: "kfd_open_count ?s2 = Suc (length ws)" using c1 by simp
  note e3 = close_times_all [OF c2]
  have new: "drop (length (calls s)) (calls s1 @
        [Call_destroy_counter_props, Call_destroy_device_debugging_memory,
         Call_destroy_process_doorbells, Call_fmm_destroy_process_apertures,
         Call_close (open_kfd w)]) =
      [Call_open (open_kfd w), Call_topology_sysfs_get_system_props,
            Call_fmm_init_process_apertures (snd (topology_sysfs_get_system_props w)),
            Call_init_process_doorbells (snd (topology_sysfs_get_system_props w)),
            Call_init_device_debugging_memory (snd (topology_sysfs_get_system_props w)),
            Call_init_counter_props (snd (topology_sysfs_get_system_props w))] @
           (if atfork_installed s then [] else [Call_pthread_atfork]) @
        [Call_destroy_counter_props, Call_destroy_device_debugging_memory,
         Call_destroy_process_doorbells, Call_fmm_destroy_process_apertures,
         Call_close (open_kfd w)]"
    unfolding l1 by simp
  have last: "calls (snd (close_times (Suc (length ws)) ?s2)) = calls s1 @
        [Call_destroy_counter_props, Call_destroy_device_debugging_memory,
         Call_destroy_process_doorbells, Call_fmm_destroy_process_apertures,
         Call_close (open_kfd w)]"
    unfolding e3 using f1 assms(6) by simp
  have "device_opens (drop (length (calls s)) (calls (snd (close_times (Suc (length ws)) ?s2)))) = 1"
    unfolding last new using fd by (simp add: device_opens_def)
  moreover
  have "device_closes (drop (length (calls s)) (calls (snd (close_times (Suc (length ws)) ?s2)))) = 1"
    unfolding last new by (simp add: device_closes_def)
  moreover
  have "fst (close_times (Suc (length ws)) ?s2) = replicate (Suc (length ws)) HSAKMT_STATUS_SUCCESS"
    unfolding e3 by simp
  moreover
  have "calls (snd (close_times (length ws) ?s2)) = calls s1" unfolding e2 by simp
  ultimately show ?thesis
    unfolding all using last o1 by simp
qed

text \<open>
  C3. \<open>N\<close> successful opens followed by \<open>N\<close> closes should open the device once and
  close it once. The source does not when \<^verbatim>\<open>open\<close> returns descriptor 0: with
  \<open>N = 1\<close>, one open and one close, both successful, open the device once and never
  close it, because \<^verbatim>\<open>if (kfd_fd)\<close> takes the held descriptor 0 for none.
\<close>

theorem descriptor_zero_never_closed:
  "fst (open_times sample_header [plain_sys\<lparr>open_kfd := 0\<rparr>] initial_state) =
     [HSAKMT_STATUS_SUCCESS] \<and>
   fst (close_times 1 (snd (open_times sample_header [plain_sys\<lparr>open_kfd := 0\<rparr>] initial_state)))
     = [HSAKMT_STATUS_SUCCESS] \<and>
   device_opens (calls (snd (close_times 1
       (snd (open_times sample_header [plain_sys\<lparr>open_kfd := 0\<rparr>] initial_state))))) = 1 \<and>
   device_closes (calls (snd (close_times 1
       (snd (open_times sample_header [plain_sys\<lparr>open_kfd := 0\<rparr>] initial_state))))) = 0"
  by (simp add: open_eval close_eval device_opens_def device_closes_def)

subsection \<open>Fork\<close>

text \<open>
  C8. \<^verbatim>\<open>is_forked_child\<close>, called in the state the file starts in (flag clear, no
  process recorded), records the caller and returns false. In every state it returns
  true exactly when the flag is set or a process is recorded that is not the caller; when
  it returns true the flag is set afterwards, and with the flag set it returns true
  for every caller and changes nothing. \<^verbatim>\<open>child_fork_handler\<close> sets the flag,
  \<^verbatim>\<open>hsaKmtCloseKFD\<close> leaves it alone, and \<^verbatim>\<open>clear_after_fork\<close> clears both the flag and
  the recorded process.
\<close>

theorem fork_tracker:
  "(\<not> hsakmt_forked s \<and> parent_pid s = - 1 \<longrightarrow>
      is_forked_child p s = (False, s\<lparr>parent_pid := p\<rparr>))
   \<and> fst (is_forked_child p s) = (hsakmt_forked s \<or> (parent_pid s \<noteq> - 1 \<and> parent_pid s \<noteq> p))
   \<and> (fst (is_forked_child p s) \<longrightarrow> hsakmt_forked (snd (is_forked_child p s)))
   \<and> (hsakmt_forked s \<longrightarrow> is_forked_child q s = (True, s))
   \<and> hsakmt_forked (child_fork_handler s)
   \<and> hsakmt_forked (snd (hsaKmtCloseKFD s)) = hsakmt_forked s
   \<and> \<not> hsakmt_forked (clear_after_fork s) \<and> parent_pid (clear_after_fork s) = - 1"
  by (simp add: is_forked_child_def child_fork_handler_def clear_after_fork_def Let_def
        hsaKmtCloseKFD_def close_if_marked_def log_call_def)

theorem fork_tracker_witness:
  "(\<not> hsakmt_forked initial_state \<and> parent_pid initial_state = - 1 \<and>
      is_forked_child 100 initial_state = (False, initial_state\<lparr>parent_pid := 100\<rparr>))
   \<and> (fst (is_forked_child 200 (initial_state\<lparr>parent_pid := 100\<rparr>)) \<and>
      hsakmt_forked (snd (is_forked_child 200 (initial_state\<lparr>parent_pid := 100\<rparr>))))
   \<and> (hsakmt_forked (initial_state\<lparr>parent_pid := 100, hsakmt_forked := True\<rparr>) \<and>
      is_forked_child 100 (initial_state\<lparr>parent_pid := 100, hsakmt_forked := True\<rparr>) =
        (True, initial_state\<lparr>parent_pid := 100, hsakmt_forked := True\<rparr>))"
  using fork_tracker [where s = initial_state and p = 100]
    fork_tracker [where s = "initial_state\<lparr>parent_pid := 100\<rparr>" and p = 200]
    fork_tracker [where s = "initial_state\<lparr>parent_pid := 100, hsakmt_forked := True\<rparr>"
      and q = 100]
  by (simp add: initial_state_def)




subsection \<open>Settings\<close>




end
